theory Spec2Isabelle
  imports Main
begin

section \<open>Values of the host language\<close>

text \<open>
  A source string is modelled as a \<open>string\<close>, one \<open>char\<close> per code unit; the model
  covers the code units below 256. An argument that a caller may leave out or pass as
  \<open>undefined\<close> is an \<open>option\<close>, \<open>None\<close> standing for \<open>undefined\<close>. A number that the
  source renders into a template literal (a threshold, an HTTP status) is a \<open>nat\<close>, which
  the engine prints in decimal (exact for the non-negative integers below \<open>10^21\<close>).
\<close>

definition truthy :: "string option \<Rightarrow> bool" where
  \<comment> \<open>\<open>!val\<close> holds for \<open>undefined\<close> and for the empty string.\<close>
  "truthy val = (case val of None \<Rightarrow> False | Some v \<Rightarrow> v \<noteq> [])"

definition startsWith :: "string \<Rightarrow> string \<Rightarrow> bool" where
  "startsWith str p = (take (length p) str = p)"

definition endsWith :: "string \<Rightarrow> string \<Rightarrow> bool" where
  "endsWith str p = (length p \<le> length str \<and> drop (length str - length p) str = p)"

definition template :: "string option \<Rightarrow> string" where
  \<comment> \<open>A string interpolated into a template literal: \<open>undefined\<close> prints as its name.\<close>
  "template val = (case val of None \<Rightarrow> ''undefined'' | Some v \<Rightarrow> v)"

fun join_comma :: "string list \<Rightarrow> string" where
  "join_comma [] = []"
| "join_comma [x] = x"
| "join_comma (x # y # ys) = x @ '','' @ join_comma (y # ys)"

definition template_array :: "string list option \<Rightarrow> string" where
  \<comment> \<open>An array interpolated into a template literal is joined with commas.\<close>
  "template_array val = (case val of None \<Rightarrow> ''undefined'' | Some xs \<Rightarrow> join_comma xs)"

definition digit :: "nat \<Rightarrow> char" where
  "digit d = ''0123456789'' ! d"

fun show_nat :: "nat \<Rightarrow> string" where
  "show_nat n = (if n < 10 then [digit n] else show_nat (n div 10) @ [digit (n mod 10)])"

declare show_nat.simps [simp del]

section \<open>Utility transforms (module utils)\<close>

definition remove0x :: "string option \<Rightarrow> string" where
  "remove0x val =
     (case val of
        None \<Rightarrow> []
      | Some v \<Rightarrow> if v = [] then [] else if startsWith v ''0x'' then drop 2 v else v)"

definition ensure0x :: "string \<Rightarrow> string" where
  "ensure0x str = (if startsWith str ''0x'' then str else ''0x'' @ str)"

definition dquote :: char where
  "dquote = CHR 0x22"

definition lineTerminator :: "char \<Rightarrow> bool" where
  \<comment> \<open>The code units that the pattern character \<open>.\<close> does not match: line feed and
      carriage return (the two others, U+2028 and U+2029, lie outside \<open>char\<close>).\<close>
  "lineTerminator c = (c = CHR 0x0A \<or> c = CHR 0x0D)"

definition removeEnclosingDQuotes :: "string \<Rightarrow> string" where
  \<comment> \<open>\<open>str.replace(/^"(.*)"$/, '$1')\<close>: the pattern has no flags, so it is anchored at both
      ends of the whole string and its \<open>.\<close> matches any code unit but a line terminator.
      A match spans the whole string, and the replacement is the captured group.\<close>
  "removeEnclosingDQuotes str =
     (case str of
        [] \<Rightarrow> str
      | q # rest \<Rightarrow>
          if q = dquote \<and> rest \<noteq> [] \<and> last rest = dquote
             \<and> list_all (\<lambda>c. \<not> lineTerminator c) (butlast rest)
          then butlast rest
          else str)"

section \<open>Errors, promises and the HTTP transport\<close>

datatype http_method = GET | POST

text \<open>
  The request configuration handed to the transport. The client overwrites the fields
  \<open>url\<close>, \<open>method\<close> and \<open>data\<close> on every call; whatever else the caller configured
  (headers, timeouts) is kept in \<open>cfg_rest\<close>.
\<close>

record request_config =
  cfg_url :: "string option"
  cfg_method :: "http_method option"
  cfg_data :: "string option"
  cfg_rest :: "(string \<times> string) list"

definition empty_config :: request_config where
  \<comment> \<open>The object \<open>{}\<close>.\<close>
  "empty_config = \<lparr>cfg_url = None, cfg_method = None, cfg_data = None, cfg_rest = []\<rparr>"

text \<open>
  A body as the transport delivers it. The transport parses a body that is JSON, so the
  client may receive any JSON value; a body that is not JSON, and a JSON string, arrive as
  a string.
\<close>

datatype json_value =
    JNull
  | JBool bool
  | JNumber int
  | JString string
  | JArray "json_value list"
  | JObject "(string \<times> json_value) list"

text \<open>The response of the transport; \<open>config\<close> is the configuration of its request.\<close>

record response =
  status :: nat
  statusText :: string
  data :: json_value
  config :: request_config

text \<open>
  Thrown values. \<open>AxiosError\<close> is the transport's own error: its flag \<open>isAxiosError\<close>
  is set, and its \<open>response\<close> is optional (a request that got no answer has none).
  \<open>TypeError p\<close> is the engine's error for reading the property \<open>p\<close> of \<open>undefined\<close>,
  or for calling a method \<open>p\<close> that the value does not have. The property \<open>name\<close> of an
  error is that of its class; only \<open>SecretStoreSessionError\<close> sets its own.
\<close>

datatype js_error =
    Error string
  | SecretStoreSessionError string request_config
  | TypeError string
  | AxiosError string "response option"

fun error_name :: "js_error \<Rightarrow> string" where
  "error_name (Error message) = ''Error''"
| "error_name (SecretStoreSessionError message meta) = ''SecretStoreSessionError''"
| "error_name (TypeError p) = ''TypeError''"
| "error_name (AxiosError message r) = ''Error''"

fun isAxiosError :: "js_error \<Rightarrow> bool" where
  "isAxiosError (AxiosError message r) = True"
| "isAxiosError e = False"

text \<open>The settled state of the promise that an asynchronous function returns.\<close>

datatype 'a promise = Fulfilled 'a | Rejected js_error

type_synonym transport = "request_config \<Rightarrow> response promise"

text \<open>
  Every asynchronous operation returns its promise together with the list of the
  requests it invoked the transport with, in order. A \<open>throw\<close> in the body of an
  asynchronous function rejects the returned promise.
\<close>

type_synonym ('a, 'c) async = "'a promise \<times> 'c list"

definition throw :: "js_error \<Rightarrow> ('a, 'c) async" where
  "throw e = (Rejected e, [])"

fun await_then :: "('a \<Rightarrow> 'b) \<Rightarrow> ('a, 'c) async \<Rightarrow> ('b, 'c) async" where
  "await_then f (Fulfilled v, calls) = (Fulfilled (f v), calls)"
| "await_then f (Rejected e, calls) = (Rejected e, calls)"

text \<open>The same for a continuation that may throw, which rejects the promise.\<close>

fun await_try :: "('a \<Rightarrow> js_error + 'b) \<Rightarrow> ('a, 'c) async \<Rightarrow> ('b, 'c) async" where
  "await_try f (Fulfilled v, calls) = ((case f v of Inl e \<Rightarrow> Rejected e | Inr w \<Rightarrow> Fulfilled w), calls)"
| "await_try f (Rejected e, calls) = (Rejected e, calls)"

definition unquote :: "json_value \<Rightarrow> js_error + string" where
  \<comment> \<open>\<open>removeEnclosingDQuotes\<close> called on a body: the function calls the method \<open>replace\<close>
      of its argument, which only a string has.\<close>
  "unquote v = (case v of JString str \<Rightarrow> Inr (removeEnclosingDQuotes str) | _ \<Rightarrow> Inl (TypeError ''replace''))"

section \<open>The session client (module client/session)\<close>

record ExternallyEncryptedDocumentKey =
  common_point :: "string option"
  encrypted_key :: "string option"
  encrypted_point :: "string option"

record DocumentKeyPortions =
  portions_common_point :: string
  decrypted_secret :: string
  decrypt_shadows :: "string list"

text \<open>An argument of type \<open>string | T\<close>.\<close>

datatype 'o string_or = Str string | Obj 'o

definition truthy_arg :: "'o string_or option \<Rightarrow> bool" where
  \<comment> \<open>An object is always truthy; a string is truthy unless it is empty.\<close>
  "truthy_arg val = (case val of None \<Rightarrow> False | Some (Str v) \<Rightarrow> v \<noteq> [] | Some (Obj k) \<Rightarrow> True)"

record SecretStoreSessionClient =
  url :: string
  requestConfig :: request_config

definition new_SecretStoreSessionClient ::
    "string option \<Rightarrow> request_config option \<Rightarrow> js_error + SecretStoreSessionClient" where
  \<comment> \<open>The constructor is synchronous: \<open>Inl\<close> is a thrown error.\<close>
  "new_SecretStoreSessionClient ssEndpointUrl requestConfig' =
     (case ssEndpointUrl of
        None \<Rightarrow> Inl (Error ''Secret Store endpoint URL was not given'')
      | Some u \<Rightarrow>
          if u = [] then Inl (Error ''Secret Store endpoint URL was not given'')
          else Inr \<lparr>url = (if endsWith u ''/'' then butlast u else u),
                    requestConfig = (case requestConfig' of None \<Rightarrow> empty_config | Some c \<Rightarrow> c)\<rparr>)"

definition send ::
    "transport \<Rightarrow> SecretStoreSessionClient \<Rightarrow> http_method \<Rightarrow> string \<Rightarrow> string option
      \<Rightarrow> (json_value, request_config) async" where
  \<comment> \<open>The private method \<open>_send\<close>. In the handler the message is built first, so an
      error thrown while building it is what the caller gets.\<close>
  "send axios this m u body =
     (let request = (requestConfig this)\<lparr>cfg_url := Some u, cfg_method := Some m, cfg_data := body\<rparr>
      in (case axios request of
            Fulfilled r \<Rightarrow> Fulfilled (data r)
          | Rejected error \<Rightarrow>
              if isAxiosError error then
                (case error of
                   AxiosError message (Some r) \<Rightarrow>
                     (case unquote (data r) of
                        Inl e \<Rightarrow> Rejected e
                      | Inr body' \<Rightarrow>
                          Rejected (SecretStoreSessionError
                            (statusText r @ '' ('' @ show_nat (status r) @ ''): '' @ body')
                            (config r)))
                 | AxiosError message None \<Rightarrow> Rejected (TypeError ''statusText'')
                 | e \<Rightarrow> Rejected e)
              else Rejected error,
          [request]))"

definition generateServerKey ::
    "transport \<Rightarrow> SecretStoreSessionClient \<Rightarrow> string \<Rightarrow> string \<Rightarrow> nat \<Rightarrow> (string, request_config) async" where
  "generateServerKey axios this serverKeyID signedServerKeyID threshold =
     await_try unquote
       (send axios this POST
          (url this @ ''/shadow/'' @ remove0x (Some serverKeyID) @ ''/''
             @ remove0x (Some signedServerKeyID) @ ''/'' @ show_nat threshold)
          None)"

definition retrieveServerKeyPublic ::
    "transport \<Rightarrow> SecretStoreSessionClient \<Rightarrow> string \<Rightarrow> string \<Rightarrow> (string, request_config) async" where
  "retrieveServerKeyPublic axios this serverKeyID signedServerKeyID =
     await_try unquote
       (send axios this GET
          (url this @ ''/server/'' @ remove0x (Some serverKeyID) @ ''/''
             @ remove0x (Some signedServerKeyID))
          None)"

definition storeDocumentKey ::
    "transport \<Rightarrow> SecretStoreSessionClient \<Rightarrow> string \<Rightarrow> string
      \<Rightarrow> ExternallyEncryptedDocumentKey string_or option \<Rightarrow> string option
      \<Rightarrow> (json_value, request_config) async" where
  "storeDocumentKey axios this serverKeyID signedServerKeyID commonPointOrKey encryptedPoint =
     (if \<not> truthy_arg commonPointOrKey then throw (Error ''No document key parameters were given'')
      else
        (case commonPointOrKey of
           None \<Rightarrow> throw (Error ''No document key parameters were given'')
         | Some (Str commonPoint) \<Rightarrow>
             if \<not> truthy encryptedPoint then
               throw (Error (''Common point was given but no encrypted point (''
                               @ template encryptedPoint @ '')''))
             else
               send axios this POST
                 (url this @ ''/shadow/'' @ remove0x (Some serverKeyID) @ ''/''
                    @ remove0x (Some signedServerKeyID) @ ''/''
                    @ remove0x (Some commonPoint) @ ''/'' @ remove0x encryptedPoint)
                 None
         | Some (Obj k) \<Rightarrow>
             send axios this POST
               (url this @ ''/shadow/'' @ remove0x (Some serverKeyID) @ ''/''
                  @ remove0x (Some signedServerKeyID) @ ''/''
                  @ remove0x (common_point k) @ ''/'' @ remove0x (encrypted_point k))
               None))"

definition generateServerAndDocumentKey ::
    "transport \<Rightarrow> SecretStoreSessionClient \<Rightarrow> string \<Rightarrow> string \<Rightarrow> nat \<Rightarrow> (string, request_config) async" where
  "generateServerAndDocumentKey axios this serverKeyID signedServerKeyID threshold =
     await_try unquote
       (send axios this POST
          (url this @ ''/'' @ remove0x (Some serverKeyID) @ ''/''
             @ remove0x (Some signedServerKeyID) @ ''/'' @ show_nat threshold)
          None)"

definition shadowRetrieveDocumentKey ::
    "transport \<Rightarrow> SecretStoreSessionClient \<Rightarrow> string \<Rightarrow> string
      \<Rightarrow> (json_value, request_config) async" where
  \<comment> \<open>The body is returned as the transport delivers it.\<close>
  "shadowRetrieveDocumentKey axios this serverKeyID signedServerKeyID =
     send axios this GET
       (url this @ ''/shadow/'' @ remove0x (Some serverKeyID) @ ''/''
          @ remove0x (Some signedServerKeyID))
       None"

definition retrieveDocumentKey ::
    "transport \<Rightarrow> SecretStoreSessionClient \<Rightarrow> string \<Rightarrow> string \<Rightarrow> (string, request_config) async" where
  "retrieveDocumentKey axios this serverKeyID signedServerKeyID =
     await_try unquote
       (send axios this GET
          (url this @ ''/'' @ remove0x (Some serverKeyID) @ ''/''
             @ remove0x (Some signedServerKeyID))
          None)"

definition signSchnorr ::
    "transport \<Rightarrow> SecretStoreSessionClient \<Rightarrow> string \<Rightarrow> string \<Rightarrow> string \<Rightarrow> (string, request_config) async" where
  "signSchnorr axios this serverKeyID signedServerKeyID messageHash =
     await_try unquote
       (send axios this GET
          (url this @ ''/schnorr/'' @ remove0x (Some serverKeyID) @ ''/''
             @ remove0x (Some signedServerKeyID) @ ''/'' @ messageHash)
          None)"

definition signEcdsa ::
    "transport \<Rightarrow> SecretStoreSessionClient \<Rightarrow> string \<Rightarrow> string \<Rightarrow> string \<Rightarrow> (string, request_config) async" where
  "signEcdsa axios this serverKeyID signedServerKeyID messageHash =
     await_try unquote
       (send axios this GET
          (url this @ ''/ecdsa/'' @ remove0x (Some serverKeyID) @ ''/''
             @ remove0x (Some signedServerKeyID) @ ''/'' @ messageHash)
          None)"

definition backslash :: char where
  "backslash = CHR 0x5C"

definition hex_digit :: "nat \<Rightarrow> char" where
  "hex_digit d = ''0123456789abcdef'' ! d"

definition json_char :: "char \<Rightarrow> string" where
  \<comment> \<open>One code unit of a string under \<open>JSON.stringify\<close>.\<close>
  "json_char c =
     (if c = dquote then [backslash, dquote]
      else if c = backslash then [backslash, backslash]
      else if c = CHR 0x08 then [backslash, CHR ''b'']
      else if c = CHR 0x0C then [backslash, CHR ''f'']
      else if c = CHR 0x0A then [backslash, CHR ''n'']
      else if c = CHR 0x0D then [backslash, CHR ''r'']
      else if c = CHR 0x09 then [backslash, CHR ''t'']
      else if (of_char c :: nat) < 32
        then [backslash, CHR ''u'', CHR ''0'', CHR ''0'',
              hex_digit ((of_char c :: nat) div 16), hex_digit ((of_char c :: nat) mod 16)]
      else [c])"

definition json_string :: "string \<Rightarrow> string" where
  "json_string str = [dquote] @ concat (map json_char str) @ [dquote]"

definition JSON_stringify :: "string list \<Rightarrow> string" where
  \<comment> \<open>\<open>JSON.stringify\<close> of an array of strings.\<close>
  "JSON_stringify xs = ''['' @ join_comma (map json_string xs) @ '']''"

definition nodesSetChange ::
    "transport \<Rightarrow> SecretStoreSessionClient \<Rightarrow> string list \<Rightarrow> string \<Rightarrow> string
      \<Rightarrow> (string, request_config) async" where
  "nodesSetChange axios this nodeIDsNewSet signatureOldSet signatureNewSet =
     await_try unquote
       (send axios this POST
          (url this @ ''/admin/servers_set_change/'' @ remove0x (Some signatureOldSet) @ ''/''
             @ remove0x (Some signatureNewSet))
          (Some (JSON_stringify nodeIDsNewSet)))"

text \<open>
  A call of any one of the nine operations of the session client. The result of an
  operation that unquotes the body is a string, that of the two others is the body.
\<close>

datatype session_call =
    GenerateServerKey string string nat
  | RetrieveServerKeyPublic string string
  | StoreDocumentKey string string "ExternallyEncryptedDocumentKey string_or option" "string option"
  | GenerateServerAndDocumentKey string string nat
  | ShadowRetrieveDocumentKey string string
  | RetrieveDocumentKey string string
  | SignSchnorr string string string
  | SignEcdsa string string string
  | NodesSetChange "string list" string string

fun perform ::
    "transport \<Rightarrow> SecretStoreSessionClient \<Rightarrow> session_call \<Rightarrow> (json_value, request_config) async" where
  "perform axios this (GenerateServerKey i s t) =
     await_then JString (generateServerKey axios this i s t)"
| "perform axios this (RetrieveServerKeyPublic i s) =
     await_then JString (retrieveServerKeyPublic axios this i s)"
| "perform axios this (StoreDocumentKey i s k e) = storeDocumentKey axios this i s k e"
| "perform axios this (GenerateServerAndDocumentKey i s t) =
     await_then JString (generateServerAndDocumentKey axios this i s t)"
| "perform axios this (ShadowRetrieveDocumentKey i s) = shadowRetrieveDocumentKey axios this i s"
| "perform axios this (RetrieveDocumentKey i s) =
     await_then JString (retrieveDocumentKey axios this i s)"
| "perform axios this (SignSchnorr i s h) = await_then JString (signSchnorr axios this i s h)"
| "perform axios this (SignEcdsa i s h) = await_then JString (signEcdsa axios this i s h)"
| "perform axios this (NodesSetChange ns so sn) =
     await_then JString (nodesSetChange axios this ns so sn)"

section \<open>The RPC client (module client/rpc)\<close>

datatype rpc_param = PString string | PArray "string list"

text \<open>
  What the provider resolves with: a string, or an object whose fields hold strings. The
  field \<open>error\<close> of a string is \<open>undefined\<close>.
\<close>

datatype rpc_value = RString string | RObject "(string \<times> string) list"

definition error_field :: "rpc_value \<Rightarrow> string option" where
  "error_field res = (case res of RString v \<Rightarrow> None | RObject fs \<Rightarrow> map_of fs ''error'')"

type_synonym rpc_request = "string \<times> rpc_param list"

type_synonym provider = "string \<Rightarrow> rpc_param list \<Rightarrow> rpc_value promise"

definition rpc_send :: "provider \<Rightarrow> string \<Rightarrow> rpc_param list \<Rightarrow> (rpc_value, rpc_request) async" where
  \<comment> \<open>The private method \<open>_send\<close> of the RPC client.\<close>
  "rpc_send provider' m params =
     (case provider' m params of
        Fulfilled res \<Rightarrow>
          if truthy (error_field res) then Rejected (Error (template (error_field res)))
          else Fulfilled res
      | Rejected error \<Rightarrow> Rejected error,
      [(m, params)])"

definition shadowDecrypt ::
    "provider \<Rightarrow> string \<Rightarrow> string \<Rightarrow> string \<Rightarrow> DocumentKeyPortions string_or option
      \<Rightarrow> string option \<Rightarrow> string list option \<Rightarrow> (rpc_value, rpc_request) async" where
  "shadowDecrypt provider' account pwd encryptedDocument decryptedSecretOrDocumentKeyPortions
       commonPoint decryptShadows =
     (if \<not> truthy_arg decryptedSecretOrDocumentKeyPortions
      then throw (Error ''Document key portions were not supplied'')
      else
        (case decryptedSecretOrDocumentKeyPortions of
           None \<Rightarrow> throw (Error ''Document key portions were not supplied'')
         | Some (Str decryptedSecret) \<Rightarrow>
             if \<not> truthy commonPoint \<or> decryptShadows = None \<or> decryptShadows = Some [] then
               throw (Error (''Not enough document key portions were supplied (''
                               @ decryptedSecret @ '','' @ template commonPoint @ '',''
                               @ template_array decryptShadows @ '')''))
             else
               (case (commonPoint, decryptShadows) of
                  (Some cp, Some shadows) \<Rightarrow>
                    rpc_send provider' ''secretstore_shadowDecrypt''
                      [PString account, PString pwd, PString (ensure0x decryptedSecret),
                       PString (ensure0x cp), PArray shadows, PString (ensure0x encryptedDocument)]
                | _ \<Rightarrow>
                    throw (Error (''Not enough document key portions were supplied (''
                                    @ decryptedSecret @ '','' @ template commonPoint @ '',''
                                    @ template_array decryptShadows @ '')'')))
         | Some (Obj p) \<Rightarrow>
             rpc_send provider' ''secretstore_shadowDecrypt''
               [PString account, PString pwd, PString (ensure0x (decrypted_secret p)),
                PString (ensure0x (portions_common_point p)), PArray (decrypt_shadows p),
                PString (ensure0x encryptedDocument)]))"

section \<open>Concrete clients and transports\<close>

definition client0 :: SecretStoreSessionClient where
  "client0 = \<lparr>url = ''http://host:8090'', requestConfig = empty_config\<rparr>"

definition http_responding :: "nat \<Rightarrow> string \<Rightarrow> json_value \<Rightarrow> transport" where
  \<comment> \<open>A transport that answers every request with the given status, status text and body:
      a status from 200 to 299 resolves, any other rejects with the transport's own error,
      which carries the response.\<close>
  "http_responding st text body request =
     (if 200 \<le> st \<and> st < 300
      then Fulfilled \<lparr>status = st, statusText = text, data = body, config = request\<rparr>
      else Rejected (AxiosError (''Request failed with status code '' @ show_nat st)
             (Some \<lparr>status = st, statusText = text, data = body, config = request\<rparr>)))"

definition connection_refused :: transport where
  \<comment> \<open>A transport that reaches no server: its error carries no response.\<close>
  "connection_refused request = Rejected (AxiosError ''connect ECONNREFUSED'' None)"

definition rpc_answering :: "string \<Rightarrow> provider" where
  "rpc_answering result m params = Fulfilled (RString result)"

section \<open>Properties of the utility transforms\<close>

lemma remove0x_prefixed: "remove0x (Some (CHR ''0'' # CHR ''x'' # x)) = x"
  by (simp add: remove0x_def startsWith_def)

text \<open>
  Claim C6. For every string \<open>x\<close>, \<open>remove0x(ensure0x(x))\<close> equals \<open>remove0x(x)\<close>: adding
  the prefix before stripping it never changes the stripped result.
\<close>

theorem remove0x_ensure0x: "remove0x (Some (ensure0x x)) = remove0x (Some x)"
proof (cases "startsWith x ''0x''")
  case True
  then show ?thesis by (simp add: ensure0x_def)
next
  case False
  then have "remove0x (Some x) = x"
    by (simp add: remove0x_def)
  with False show ?thesis
    by (simp add: ensure0x_def remove0x_prefixed)
qed

subsection \<open>Stripping enclosing quotes\<close>

text \<open>
  The function strips the quotes of a string that is wrapped in them when nothing between
  them is a line terminator, and leaves every other string as it is.
\<close>

lemma removeEnclosingDQuotes_wrapped:
  "list_all (\<lambda>c. \<not> lineTerminator c) body \<Longrightarrow> removeEnclosingDQuotes (dquote # body @ [dquote]) = body"
  by (simp add: removeEnclosingDQuotes_def)

lemma removeEnclosingDQuotes_unwrapped:
  assumes "\<not> (\<exists>body. str = dquote # body @ [dquote] \<and> list_all (\<lambda>c. \<not> lineTerminator c) body)"
  shows "removeEnclosingDQuotes str = str"
proof (cases str)
  case Nil
  then show ?thesis by (simp add: removeEnclosingDQuotes_def)
next
  case (Cons q rest)
  show ?thesis
  proof (cases "q = dquote \<and> rest \<noteq> [] \<and> last rest = dquote \<and> list_all (\<lambda>c. \<not> lineTerminator c) (butlast rest)")
    case True
    then have "str = dquote # butlast rest @ [dquote]"
      using Cons by (metis append_butlast_last_id)
    with True assms show ?thesis by blast
  next
    case False
    with Cons show ?thesis by (auto simp add: removeEnclosingDQuotes_def)
  qed
qed

lemma removeEnclosingDQuotes_examples:
  "removeEnclosingDQuotes [dquote, CHR ''a'', CHR ''b'', CHR ''c'', dquote] = ''abc''"
  "removeEnclosingDQuotes ''abc'' = ''abc''"
  "removeEnclosingDQuotes [dquote, CHR ''a'', dquote, CHR ''b'', dquote] = [CHR ''a'', dquote, CHR ''b'']"
  "removeEnclosingDQuotes [dquote, CHR ''a'', dquote, CHR ''b''] = [dquote, CHR ''a'', dquote, CHR ''b'']"
  by (simp_all add: removeEnclosingDQuotes_def dquote_def lineTerminator_def)

text \<open>
  Claim C5. \<open>removeEnclosingDQuotes(s)\<close> is to return the body of every \<open>s\<close> of the form
  \<open>"<body>"\<close> and to return \<open>s\<close> unchanged otherwise. The code does so only when the
  body holds no line terminator: the string made of a quote, \<open>a\<close>, a line feed,
  \<open>b\<close> and a quote is wrapped in quotes, and the code returns it with its quotes.
\<close>

theorem removeEnclosingDQuotes_multiline:
  "removeEnclosingDQuotes [dquote, CHR ''a'', CHR 0x0A, CHR ''b'', dquote]
     = [dquote, CHR ''a'', CHR 0x0A, CHR ''b'', dquote]"
  by (simp add: removeEnclosingDQuotes_def dquote_def lineTerminator_def)

section \<open>Properties of the session client\<close>

lemma show_nat_500: "show_nat 500 = ''500''"
  by (simp add: show_nat.simps digit_def)

lemma show_nat_2: "show_nat 2 = ''2''"
  by (simp add: show_nat.simps digit_def)

lemma snd_send:
  "snd (send axios this m u body)
     = [(requestConfig this)\<lparr>cfg_url := Some u, cfg_method := Some m, cfg_data := body\<rparr>]"
  by (simp add: send_def Let_def)

lemma snd_await_then: "snd (await_then f a) = snd a"
  by (cases "(f, a)" rule: await_then.cases) simp_all

lemma fst_await_then_Rejected: "fst a = Rejected e \<Longrightarrow> fst (await_then f a) = Rejected e"
  by (cases "(f, a)" rule: await_then.cases) simp_all

lemma snd_await_try: "snd (await_try f a) = snd a"
  by (cases "(f, a)" rule: await_try.cases) simp_all

lemma fst_await_try_Rejected: "fst a = Rejected e \<Longrightarrow> fst (await_try f a) = Rejected e"
  by (cases "(f, a)" rule: await_try.cases) simp_all

lemma endsWith_slash: "endsWith u ''/'' = (u \<noteq> [] \<and> last u = CHR ''/'')"
proof (cases u rule: rev_cases)
  case Nil
  then show ?thesis by (simp add: endsWith_def)
next
  case (snoc v c)
  then show ?thesis by (auto simp add: endsWith_def)
qed

lemma remove0x_falsy: "\<not> truthy val \<Longrightarrow> remove0x val = []"
  by (simp add: truthy_def remove0x_def split: option.splits)

text \<open>
  Claim C7 says that constructing a session client with an undefined or empty base URL
  fails with a \<open>ConfigurationError\<close>. The code has no such class: what the constructor
  throws is a plain \<open>Error\<close>, whose name is \<open>Error\<close>.
\<close>

theorem constructor_error_is_plain:
  "new_SecretStoreSessionClient None None = Inl (Error ''Secret Store endpoint URL was not given'')
   \<and> new_SecretStoreSessionClient (Some []) None
       = Inl (Error ''Secret Store endpoint URL was not given'')
   \<and> error_name (Error ''Secret Store endpoint URL was not given'') = ''Error''
   \<and> error_name (Error ''Secret Store endpoint URL was not given'') \<noteq> ''ConfigurationError''"
  by (simp add: new_SecretStoreSessionClient_def)

text \<open>
  Claim C7, amended. Constructing a session client with an undefined or empty base URL
  throws at once a plain \<open>Error\<close> with the message
  \<open>Secret Store endpoint URL was not given\<close>. With a non-empty URL the construction
  succeeds and stores the URL with exactly one trailing \<open>/\<close> stripped when there is one,
  and unchanged otherwise.
\<close>

theorem constructor_url:
  "new_SecretStoreSessionClient None rc = Inl (Error ''Secret Store endpoint URL was not given'')
   \<and> new_SecretStoreSessionClient (Some []) rc = Inl (Error ''Secret Store endpoint URL was not given'')
   \<and> new_SecretStoreSessionClient (Some (v @ ''/'')) rc
       = Inr \<lparr>url = v, requestConfig = (case rc of None \<Rightarrow> empty_config | Some c \<Rightarrow> c)\<rparr>
   \<and> (u \<noteq> [] \<and> last u \<noteq> CHR ''/'' \<longrightarrow>
        new_SecretStoreSessionClient (Some u) rc
          = Inr \<lparr>url = u, requestConfig = (case rc of None \<Rightarrow> empty_config | Some c \<Rightarrow> c)\<rparr>)"
  by (simp add: new_SecretStoreSessionClient_def endsWith_slash)

theorem constructor_url_witness:
  "new_SecretStoreSessionClient (Some ''http://host:8090/'') None
     = Inr \<lparr>url = ''http://host:8090'', requestConfig = empty_config\<rparr>
   \<and> new_SecretStoreSessionClient (Some ''http://host:8090//'') None
     = Inr \<lparr>url = ''http://host:8090/'', requestConfig = empty_config\<rparr>
   \<and> new_SecretStoreSessionClient (Some ''http://host:8090'') None
     = Inr \<lparr>url = ''http://host:8090'', requestConfig = empty_config\<rparr>
   \<and> new_SecretStoreSessionClient None None = Inl (Error ''Secret Store endpoint URL was not given'')
   \<and> new_SecretStoreSessionClient (Some '''') None = Inl (Error ''Secret Store endpoint URL was not given'')"
  using constructor_url [of None "''http://host:8090''" "''http://host:8090''"]
    constructor_url [of None "''http://host:8090/''" "''''"]
  by simp

text \<open>
  Claim C9. \<open>signSchnorr\<close> and \<open>signEcdsa\<close> put \<open>messageHash\<close> into the URL of their
  request exactly as supplied, while the server key ID and its signature go through
  \<open>remove0x\<close>: the one request each of them issues is a GET of
  \<open>{base}/schnorr/{remove0x(id)}/{remove0x(sig)}/{messageHash}\<close>, respectively of
  \<open>{base}/ecdsa/{remove0x(id)}/{remove0x(sig)}/{messageHash}\<close>.
\<close>

theorem signing_url_keeps_messageHash:
  "snd (signSchnorr axios this serverKeyID signedServerKeyID messageHash)
     = [(requestConfig this)
          \<lparr>cfg_url := Some (url this @ ''/schnorr/'' @ remove0x (Some serverKeyID) @ ''/''
                            @ remove0x (Some signedServerKeyID) @ ''/'' @ messageHash),
           cfg_method := Some GET, cfg_data := None\<rparr>]
   \<and> snd (signEcdsa axios this serverKeyID signedServerKeyID messageHash)
     = [(requestConfig this)
          \<lparr>cfg_url := Some (url this @ ''/ecdsa/'' @ remove0x (Some serverKeyID) @ ''/''
                            @ remove0x (Some signedServerKeyID) @ ''/'' @ messageHash),
           cfg_method := Some GET, cfg_data := None\<rparr>]"
  by (simp add: signSchnorr_def signEcdsa_def snd_await_try snd_send)

lemma signing_url_example:
  "snd (signSchnorr axios client0 ''0xdead'' ''0xbeef'' ''0xabcd'')
     = [\<lparr>cfg_url = Some ''http://host:8090/schnorr/dead/beef/0xabcd'', cfg_method = Some GET,
         cfg_data = None, cfg_rest = []\<rparr>]"
  by (simp add: signSchnorr_def snd_await_try snd_send client0_def empty_config_def
        remove0x_def startsWith_def)

subsection \<open>Failures of the transport\<close>

lemma fst_send_response:
  assumes "axios ((requestConfig this)\<lparr>cfg_url := Some u, cfg_method := Some m, cfg_data := body\<rparr>)
             = Rejected (AxiosError message (Some r))"
    and "data r = JString str"
  shows "fst (send axios this m u body)
           = Rejected (SecretStoreSessionError
               (statusText r @ '' ('' @ show_nat (status r) @ ''): '' @ removeEnclosingDQuotes str)
               (config r))"
  using assms by (simp add: send_def Let_def unquote_def)

lemma fst_send_no_response:
  assumes "axios ((requestConfig this)\<lparr>cfg_url := Some u, cfg_method := Some m, cfg_data := body\<rparr>)
             = Rejected (AxiosError message None)"
  shows "fst (send axios this m u body) = Rejected (TypeError ''statusText'')"
  using assms by (simp add: send_def Let_def)

lemma fst_send_other_error:
  assumes "axios ((requestConfig this)\<lparr>cfg_url := Some u, cfg_method := Some m, cfg_data := body\<rparr>)
             = Rejected e"
    and "\<not> isAxiosError e"
  shows "fst (send axios this m u body) = Rejected e"
  using assms by (simp add: send_def Let_def)

text \<open>
  Every operation either issues no request at all or is \<open>_send\<close> on one request, with
  or without the unquoting of a fulfilled body.
\<close>

lemma perform_shape:
  "snd (perform axios this call) = []
   \<or> (\<exists>m u body. perform axios this call = send axios this m u body
                  \<or> perform axios this call
                      = await_then JString (await_try unquote (send axios this m u body)))"
proof (cases call)
  case (StoreDocumentKey i s k e)
  then show ?thesis
    by (auto simp add: storeDocumentKey_def throw_def split: option.splits string_or.splits)
qed (auto simp add: generateServerKey_def retrieveServerKeyPublic_def
       generateServerAndDocumentKey_def shadowRetrieveDocumentKey_def retrieveDocumentKey_def
       signSchnorr_def signEcdsa_def nodesSetChange_def)

text \<open>
  What the code does when the transport rejects the request of an operation with an
  error that carries a response whose body is a string: the operation rejects with a
  \<open>SecretStoreSessionError\<close> whose message is the status text, the status in brackets and
  the body passed through \<open>removeEnclosingDQuotes\<close>, and whose metadata is the
  configuration that the response carries.
\<close>

lemma perform_transport_failure:
  assumes "snd (perform axios this call) = [request]"
    and "axios request = Rejected (AxiosError message (Some r))"
    and "data r = JString str"
  shows "fst (perform axios this call)
           = Rejected (SecretStoreSessionError
               (statusText r @ '' ('' @ show_nat (status r) @ ''): '' @ removeEnclosingDQuotes str)
               (config r))"
proof -
  from perform_shape [of axios this call] assms(1)
  obtain m u body where shape:
    "perform axios this call = send axios this m u body
     \<or> perform axios this call = await_then JString (await_try unquote (send axios this m u body))"
    by auto
  then have "snd (perform axios this call) = snd (send axios this m u body)"
    by (auto simp add: snd_await_then snd_await_try)
  with assms(1) have "request = (requestConfig this)\<lparr>cfg_url := Some u, cfg_method := Some m, cfg_data := body\<rparr>"
    by (simp add: snd_send)
  with assms(2,3) have "fst (send axios this m u body)
           = Rejected (SecretStoreSessionError
               (statusText r @ '' ('' @ show_nat (status r) @ ''): '' @ removeEnclosingDQuotes str)
               (config r))"
    by (simp add: fst_send_response)
  with shape show ?thesis
    by (auto simp add: fst_await_then_Rejected fst_await_try_Rejected)
qed

text \<open>
  A status of 500 with the status text \<open>Internal Server Error\<close> and the body \<open>"boom"\<close>
  (in quotes) makes \<open>generateServerKey\<close> reject with the message
  \<open>Internal Server Error (500): boom\<close> and with the configuration of its request.
\<close>

lemma perform_transport_failure_example:
  "perform (http_responding 500 ''Internal Server Error''
              (JString [dquote, CHR ''b'', CHR ''o'', CHR ''o'', CHR ''m'', dquote]))
       client0 (GenerateServerKey ''0xdead'' ''0xbeef'' 2)
     = (Rejected (SecretStoreSessionError ''Internal Server Error (500): boom''
          \<lparr>cfg_url = Some ''http://host:8090/shadow/dead/beef/2'', cfg_method = Some POST,
           cfg_data = None, cfg_rest = []\<rparr>),
        [\<lparr>cfg_url = Some ''http://host:8090/shadow/dead/beef/2'', cfg_method = Some POST,
          cfg_data = None, cfg_rest = []\<rparr>])"
  by (simp add: generateServerKey_def send_def Let_def http_responding_def unquote_def
        client0_def empty_config_def remove0x_def startsWith_def show_nat_2 show_nat_500
        removeEnclosingDQuotes_def dquote_def lineTerminator_def)

text \<open>
  Claim C3. When the transport reports a failure with a response, every operation is to
  reject with a \<open>SecretStoreSessionError\<close> whose message is
  \<open>"<statusText> (<status>): <body with enclosing double quotes removed>"\<close>. The code does
  so for a quoted body on one line. For the body made of a quote, \<open>a\<close>, a line feed, \<open>b\<close>
  and a quote, \<open>generateServerKey\<close> rejects with a message that still holds the quotes;
  for a body that the transport parsed into an object, it rejects with a \<open>TypeError\<close>.
\<close>

theorem transport_failure_message_keeps_quotes:
  "perform (http_responding 500 ''Internal Server Error''
              (JString [dquote, CHR ''a'', CHR 0x0A, CHR ''b'', dquote]))
       client0 (GenerateServerKey ''0xdead'' ''0xbeef'' 2)
     = (Rejected (SecretStoreSessionError
          (''Internal Server Error (500): '' @ [dquote, CHR ''a'', CHR 0x0A, CHR ''b'', dquote])
          \<lparr>cfg_url = Some ''http://host:8090/shadow/dead/beef/2'', cfg_method = Some POST,
           cfg_data = None, cfg_rest = []\<rparr>),
        [\<lparr>cfg_url = Some ''http://host:8090/shadow/dead/beef/2'', cfg_method = Some POST,
          cfg_data = None, cfg_rest = []\<rparr>])
   \<and> perform (http_responding 500 ''Internal Server Error'' (JObject []))
       client0 (GenerateServerKey ''0xdead'' ''0xbeef'' 2)
     = (Rejected (TypeError ''replace''),
        [\<lparr>cfg_url = Some ''http://host:8090/shadow/dead/beef/2'', cfg_method = Some POST,
          cfg_data = None, cfg_rest = []\<rparr>])"
  by (simp add: generateServerKey_def send_def Let_def http_responding_def unquote_def
        client0_def empty_config_def remove0x_def startsWith_def show_nat_2 show_nat_500
        removeEnclosingDQuotes_def dquote_def lineTerminator_def)

text \<open>
  Claim C4. A transport error that carries no HTTP response (a refused connection, a
  failed name lookup) is to reach the caller as it is. The transport flags such an error
  as its own, so \<open>_send\<close> reads the status text of a response that is not there: the
  caller gets a \<open>TypeError\<close> in place of the error of the transport. (An error that is
  not flagged is passed on unchanged, see \<open>fst_send_other_error\<close>.)
\<close>

theorem connection_refused_replaced:
  "perform connection_refused client0 (RetrieveServerKeyPublic ''0xdead'' ''0xbeef'')
     = (Rejected (TypeError ''statusText''),
        [\<lparr>cfg_url = Some ''http://host:8090/server/dead/beef'', cfg_method = Some GET,
          cfg_data = None, cfg_rest = []\<rparr>])"
  by (simp add: retrieveServerKeyPublic_def send_def connection_refused_def client0_def
        empty_config_def remove0x_def startsWith_def)

subsection \<open>The two calling forms of \<open>storeDocumentKey\<close>\<close>

text \<open>
  Claim C10. The object form of \<open>storeDocumentKey\<close> is not validated field by field:
  for every object whose \<open>common_point\<close> or \<open>encrypted_point\<close> is undefined or empty, no
  validation error is raised, the call is \<open>_send\<close> on a POST request, and \<open>remove0x\<close>
  turns the missing field into an empty segment of the path.
\<close>

theorem storeDocumentKey_object_unvalidated:
  assumes "\<not> truthy (common_point k) \<or> \<not> truthy (encrypted_point k)"
  shows "storeDocumentKey axios this serverKeyID signedServerKeyID (Some (Obj k)) encryptedPoint
           = send axios this POST
               (url this @ ''/shadow/'' @ remove0x (Some serverKeyID) @ ''/''
                  @ remove0x (Some signedServerKeyID) @ ''/''
                  @ remove0x (common_point k) @ ''/'' @ remove0x (encrypted_point k))
               None
         \<and> snd (storeDocumentKey axios this serverKeyID signedServerKeyID (Some (Obj k)) encryptedPoint)
           = [(requestConfig this)
                \<lparr>cfg_url := Some (url this @ ''/shadow/'' @ remove0x (Some serverKeyID) @ ''/''
                                  @ remove0x (Some signedServerKeyID) @ ''/''
                                  @ remove0x (common_point k) @ ''/'' @ remove0x (encrypted_point k)),
                 cfg_method := Some POST, cfg_data := None\<rparr>]
         \<and> (\<not> truthy (common_point k) \<longrightarrow> remove0x (common_point k) = [])
         \<and> (\<not> truthy (encrypted_point k) \<longrightarrow> remove0x (encrypted_point k) = [])"
  using assms
  by (auto simp add: storeDocumentKey_def truthy_arg_def snd_send remove0x_falsy)

theorem storeDocumentKey_object_unvalidated_witness:
  "snd (storeDocumentKey (http_responding 200 ''OK'' (JString '''')) client0 ''0xdead'' ''0xbeef''
          (Some (Obj \<lparr>common_point = None, encrypted_key = Some ''k'', encrypted_point = Some ''0xe''\<rparr>))
          None)
     = [\<lparr>cfg_url = Some ''http://host:8090/shadow/dead/beef//e'', cfg_method = Some POST,
         cfg_data = None, cfg_rest = []\<rparr>]
   \<and> snd (storeDocumentKey (http_responding 200 ''OK'' (JString '''')) client0 ''0xdead'' ''0xbeef''
          (Some (Obj \<lparr>common_point = Some ''0xc'', encrypted_key = None, encrypted_point = Some ''''\<rparr>))
          None)
     = [\<lparr>cfg_url = Some ''http://host:8090/shadow/dead/beef/c/'', cfg_method = Some POST,
         cfg_data = None, cfg_rest = []\<rparr>]"
  using storeDocumentKey_object_unvalidated
      [of "\<lparr>common_point = None, encrypted_key = Some ''k'', encrypted_point = Some ''0xe''\<rparr>"
          "http_responding 200 ''OK'' (JString '''')" client0 "''0xdead''" "''0xbeef''" None]
    storeDocumentKey_object_unvalidated
      [of "\<lparr>common_point = Some ''0xc'', encrypted_key = None, encrypted_point = Some ''''\<rparr>"
          "http_responding 200 ''OK'' (JString '''')" client0 "''0xdead''" "''0xbeef''" None]
  by (simp add: truthy_def client0_def empty_config_def remove0x_def startsWith_def snd_send)

text \<open>
  Claim C1 says that the object \<open>{common_point: c, encrypted_point: e, encrypted_key: k}\<close>
  and the positional arguments \<open>c, e\<close> give the same request for all strings \<open>c\<close> and
  \<open>e\<close>. With an empty \<open>c\<close> the object form issues a request and the positional form
  issues none.
\<close>

theorem storeDocumentKey_forms_differ:
  "snd (storeDocumentKey (http_responding 200 ''OK'' (JString '''')) client0 ''0xdead'' ''0xbeef''
          (Some (Obj \<lparr>common_point = Some '''', encrypted_key = Some ''k'', encrypted_point = Some ''e''\<rparr>))
          None)
     = [\<lparr>cfg_url = Some ''http://host:8090/shadow/dead/beef//e'', cfg_method = Some POST,
         cfg_data = None, cfg_rest = []\<rparr>]
   \<and> storeDocumentKey (http_responding 200 ''OK'' (JString '''')) client0 ''0xdead'' ''0xbeef''
          (Some (Str '''')) (Some ''e'')
     = (Rejected (Error ''No document key parameters were given''), [])"
  by (simp add: storeDocumentKey_def truthy_arg_def throw_def snd_send client0_def
        empty_config_def remove0x_def startsWith_def)

text \<open>
  Claim C1, amended. For all non-empty strings \<open>c\<close> and \<open>e\<close>, the object form and the
  positional form of \<open>storeDocumentKey\<close> behave alike and issue the same single request:
  a POST of \<open>{base}/shadow/{remove0x(id)}/{remove0x(sig)}/{remove0x(c)}/{remove0x(e)}\<close>.
\<close>

theorem storeDocumentKey_forms_agree:
  assumes "c \<noteq> []" and "e \<noteq> []"
  shows "storeDocumentKey axios this serverKeyID signedServerKeyID
             (Some (Obj \<lparr>common_point = Some c, encrypted_key = k, encrypted_point = Some e\<rparr>))
             encryptedPoint
           = storeDocumentKey axios this serverKeyID signedServerKeyID (Some (Str c)) (Some e)
         \<and> snd (storeDocumentKey axios this serverKeyID signedServerKeyID (Some (Str c)) (Some e))
           = [(requestConfig this)
                \<lparr>cfg_url := Some (url this @ ''/shadow/'' @ remove0x (Some serverKeyID) @ ''/''
                                  @ remove0x (Some signedServerKeyID) @ ''/''
                                  @ remove0x (Some c) @ ''/'' @ remove0x (Some e)),
                 cfg_method := Some POST, cfg_data := None\<rparr>]"
  using assms
  by (simp add: storeDocumentKey_def truthy_arg_def truthy_def snd_send)

theorem storeDocumentKey_forms_agree_witness:
  "storeDocumentKey (http_responding 200 ''OK'' (JString '''')) client0 ''0xdead'' ''0xbeef''
       (Some (Obj \<lparr>common_point = Some ''c'', encrypted_key = Some ''k'', encrypted_point = Some ''e''\<rparr>))
       None
     = storeDocumentKey (http_responding 200 ''OK'' (JString '''')) client0 ''0xdead'' ''0xbeef''
         (Some (Str ''c'')) (Some ''e'')
   \<and> snd (storeDocumentKey (http_responding 200 ''OK'' (JString '''')) client0 ''0xdead'' ''0xbeef''
         (Some (Str ''c'')) (Some ''e''))
     = [\<lparr>cfg_url = Some ''http://host:8090/shadow/dead/beef/c/e'', cfg_method = Some POST,
         cfg_data = None, cfg_rest = []\<rparr>]"
  using storeDocumentKey_forms_agree
      [of "''c''" "''e''" "http_responding 200 ''OK'' (JString '''')" client0 "''0xdead''" "''0xbeef''"
          "Some ''k''" None]
  by (simp add: client0_def empty_config_def remove0x_def startsWith_def)

section \<open>Properties of the RPC client and of local validation\<close>

lemma snd_rpc_send: "snd (rpc_send provider' m params) = [(m, params)]"
  by (simp add: rpc_send_def)

text \<open>
  Claim C2 says that absent or incomplete key material makes \<open>storeDocumentKey\<close> and
  \<open>shadowDecrypt\<close> fail with one of the two messages
  \<open>Not enough document key portions were supplied\<close> and
  \<open>No document key parameters were given\<close>. A common point without an encrypted point,
  and \<open>shadowDecrypt\<close> without its key material, are rejected with other messages.
\<close>

theorem validation_messages_differ:
  "storeDocumentKey (http_responding 200 ''OK'' (JString '''')) client0 ''0xdead'' ''0xbeef''
       (Some (Str ''c'')) None
     = (Rejected (Error ''Common point was given but no encrypted point (undefined)''), [])
   \<and> shadowDecrypt (rpc_answering ''0x00'') ''alice'' ''pwd'' ''0xd0c'' None (Some ''c'') (Some [''s''])
     = (Rejected (Error ''Document key portions were not supplied''), [])
   \<and> ''Common point was given but no encrypted point (undefined)''
       \<noteq> ''Not enough document key portions were supplied''
   \<and> ''Common point was given but no encrypted point (undefined)''
       \<noteq> ''No document key parameters were given''
   \<and> ''Document key portions were not supplied''
       \<noteq> ''Not enough document key portions were supplied''
   \<and> ''Document key portions were not supplied'' \<noteq> ''No document key parameters were given''"
  by (simp add: storeDocumentKey_def shadowDecrypt_def truthy_arg_def truthy_def throw_def
        template_def)

text \<open>
  Claim C2, amended. A call of \<open>storeDocumentKey\<close> or \<open>shadowDecrypt\<close> whose key
  material is absent or empty, or whose positional set is incomplete, returns a rejected
  promise and never invokes the transport. The error is a local \<open>Error\<close>; its message
  is, for \<open>storeDocumentKey\<close>, \<open>No document key parameters were given\<close> when the third
  argument is absent or empty and
  \<open>Common point was given but no encrypted point (<encryptedPoint>)\<close> when only the
  encrypted point is; for \<open>shadowDecrypt\<close>, \<open>Document key portions were not supplied\<close>
  when the fourth argument is absent or empty and
  \<open>Not enough document key portions were supplied (<secret>,<commonPoint>,<shadows>)\<close>
  when the common point is absent or empty or the shadows are absent or an empty array.
\<close>

theorem incomplete_key_material_rejected:
  "(\<not> truthy_arg k \<longrightarrow>
      storeDocumentKey axios this serverKeyID signedServerKeyID k e
        = (Rejected (Error ''No document key parameters were given''), []))
   \<and> (c \<noteq> [] \<and> \<not> truthy e \<longrightarrow>
      storeDocumentKey axios this serverKeyID signedServerKeyID (Some (Str c)) e
        = (Rejected (Error (''Common point was given but no encrypted point ('' @ template e @ '')'')), []))
   \<and> (\<not> truthy_arg d \<longrightarrow>
      shadowDecrypt provider' account pwd encryptedDocument d cp sh
        = (Rejected (Error ''Document key portions were not supplied''), []))
   \<and> (ds \<noteq> [] \<and> (\<not> truthy cp \<or> sh = None \<or> sh = Some []) \<longrightarrow>
      shadowDecrypt provider' account pwd encryptedDocument (Some (Str ds)) cp sh
        = (Rejected (Error (''Not enough document key portions were supplied ('' @ ds @ '',''
                              @ template cp @ '','' @ template_array sh @ '')'')), []))"
  by (simp add: storeDocumentKey_def shadowDecrypt_def truthy_arg_def throw_def)

theorem incomplete_key_material_rejected_witness:
  "storeDocumentKey (http_responding 200 ''OK'' (JString '''')) client0 ''0xdead'' ''0xbeef'' None (Some ''pt'')
     = (Rejected (Error ''No document key parameters were given''), [])
   \<and> storeDocumentKey (http_responding 200 ''OK'' (JString '''')) client0 ''0xdead'' ''0xbeef''
       (Some (Str '''')) (Some '''')
     = (Rejected (Error ''No document key parameters were given''), [])
   \<and> storeDocumentKey (http_responding 200 ''OK'' (JString '''')) client0 ''0xdead'' ''0xbeef''
       (Some (Str ''c'')) (Some '''')
     = (Rejected (Error ''Common point was given but no encrypted point ()''), [])
   \<and> shadowDecrypt (rpc_answering ''0x00'') ''alice'' ''pwd'' ''0xd0c'' None
       (Some ''c'') (Some [''s''])
     = (Rejected (Error ''Document key portions were not supplied''), [])
   \<and> shadowDecrypt (rpc_answering ''0x00'') ''alice'' ''pwd'' ''0xd0c'' (Some (Str ''ds''))
       None (Some [''s'', ''t''])
     = (Rejected (Error ''Not enough document key portions were supplied (ds,undefined,s,t)''), [])
   \<and> shadowDecrypt (rpc_answering ''0x00'') ''alice'' ''pwd'' ''0xd0c'' (Some (Str ''ds''))
       (Some ''c'') (Some [])
     = (Rejected (Error ''Not enough document key portions were supplied (ds,c,)''), [])"
  using incomplete_key_material_rejected
      [of None "http_responding 200 ''OK'' (JString '''')" client0 "''0xdead''" "''0xbeef''" "Some ''pt''"
          "''c''" "Some (Str '''')" "rpc_answering ''0x00''" "''alice''" "''pwd''" "''0xd0c''"
          "None" "Some [''s'', ''t'']" "''ds''"]
    incomplete_key_material_rejected
      [of "Some (Str '''')" "http_responding 200 ''OK'' (JString '''')" client0 "''0xdead''" "''0xbeef''"
          "Some ''''" "''c''" "Some (Str '''')" "rpc_answering ''0x00''" "''alice''" "''pwd''"
          "''0xd0c''" "Some ''c''" "Some []" "''ds''"]
    incomplete_key_material_rejected
      [of None "http_responding 200 ''OK'' (JString '''')" client0 "''0xdead''" "''0xbeef''" "Some ''pt''"
          "''c''" None "rpc_answering ''0x00''" "''alice''" "''pwd''" "''0xd0c''"
          "Some ''c''" "Some [''s'']" "''ds''"]
  by (simp add: truthy_arg_def truthy_def template_def template_array_def)

text \<open>
  Claim C8 says that \<open>shadowDecrypt\<close> sends the same parameters for every object \<open>p\<close>
  with non-empty shadows and for the unpacked fields of \<open>p\<close>. With an empty
  \<open>decrypted_secret\<close> the object form sends a request and the positional form sends
  none.
\<close>

theorem shadowDecrypt_forms_differ:
  "snd (shadowDecrypt (rpc_answering ''0x00'') ''alice'' ''pwd'' ''0xd0c''
          (Some (Obj \<lparr>portions_common_point = ''c'', decrypted_secret = '''', decrypt_shadows = [''s'']\<rparr>))
          None None)
     = [(''secretstore_shadowDecrypt'',
         [PString ''alice'', PString ''pwd'', PString ''0x'', PString ''0xc'', PArray [''s''],
          PString ''0xd0c''])]
   \<and> shadowDecrypt (rpc_answering ''0x00'') ''alice'' ''pwd'' ''0xd0c''
          (Some (Str '''')) (Some ''c'') (Some [''s''])
     = (Rejected (Error ''Document key portions were not supplied''), [])"
  by (simp add: shadowDecrypt_def truthy_arg_def throw_def snd_rpc_send ensure0x_def startsWith_def)

text \<open>
  Claim C8, amended. For every object \<open>p\<close> whose \<open>decrypted_secret\<close>, \<open>common_point\<close>
  and \<open>decrypt_shadows\<close> are all non-empty, \<open>shadowDecrypt\<close> called with \<open>p\<close> and called
  with the unpacked fields of \<open>p\<close> behave alike and send the method
  \<open>secretstore_shadowDecrypt\<close> with the parameters \<open>account\<close>, \<open>pwd\<close>,
  \<open>ensure0x(decrypted_secret)\<close>, \<open>ensure0x(common_point)\<close>, \<open>decrypt_shadows\<close>,
  \<open>ensure0x(encryptedDocument)\<close>.
\<close>

theorem shadowDecrypt_forms_agree:
  assumes "decrypted_secret p \<noteq> []" and "portions_common_point p \<noteq> []"
    and "decrypt_shadows p \<noteq> []"
  shows "shadowDecrypt provider' account pwd encryptedDocument (Some (Obj p)) commonPoint decryptShadows
           = shadowDecrypt provider' account pwd encryptedDocument (Some (Str (decrypted_secret p)))
               (Some (portions_common_point p)) (Some (decrypt_shadows p))
         \<and> snd (shadowDecrypt provider' account pwd encryptedDocument
                  (Some (Str (decrypted_secret p)))
                  (Some (portions_common_point p)) (Some (decrypt_shadows p)))
           = [(''secretstore_shadowDecrypt'',
               [PString account, PString pwd, PString (ensure0x (decrypted_secret p)),
                PString (ensure0x (portions_common_point p)), PArray (decrypt_shadows p),
                PString (ensure0x encryptedDocument)])]"
  using assms
  by (simp add: shadowDecrypt_def truthy_arg_def truthy_def snd_rpc_send)

theorem shadowDecrypt_forms_agree_witness:
  "shadowDecrypt (rpc_answering ''0x00'') ''alice'' ''pwd'' ''d0c''
       (Some (Obj \<lparr>portions_common_point = ''c'', decrypted_secret = ''0xds'',
                   decrypt_shadows = [''s'', ''t'']\<rparr>))
       None None
     = shadowDecrypt (rpc_answering ''0x00'') ''alice'' ''pwd'' ''d0c''
         (Some (Str ''0xds'')) (Some ''c'') (Some [''s'', ''t''])
   \<and> snd (shadowDecrypt (rpc_answering ''0x00'') ''alice'' ''pwd'' ''d0c''
         (Some (Str ''0xds'')) (Some ''c'') (Some [''s'', ''t'']))
     = [(''secretstore_shadowDecrypt'',
         [PString ''alice'', PString ''pwd'', PString ''0xds'', PString ''0xc'',
          PArray [''s'', ''t''], PString ''0xd0c''])]"
  using shadowDecrypt_forms_agree
      [of "\<lparr>portions_common_point = ''c'', decrypted_secret = ''0xds'',
             decrypt_shadows = [''s'', ''t'']\<rparr>"
          "rpc_answering ''0x00''" "''alice''" "''pwd''" "''d0c''" None None]
  by (simp add: ensure0x_def startsWith_def)

end
